theory Spec2Isabelle
  imports Complex_Main "HOL-Library.Sublist"
begin

section \<open>Values, errors and tensors\<close>

text \<open>
  The two source files are \<^verbatim>\<open>kws/model/loss.py\<close> (the max-pooling loss and the batch
  accuracy) and \<^verbatim>\<open>kws/model/kws_model.py\<close> (the model class and its construction from a
  configuration dictionary).

  Tensor entries are modelled as real numbers: the comparisons, maxima, minima and the
  clamp of the source are exact operations on its floating-point values, and the
  logarithm and the sigmoid are taken as the real functions \<open>ln\<close> and
  \<open>1 / (1 + exp (- x))\<close>. Rounding is outside this model.
\<close>

text \<open>
  A configuration value as Python holds it after loading: the scalars, and nested
  dictionaries as association lists (the first binding of a key is the one that counts).
\<close>

datatype pyval =
    PNone
  | PBool bool
  | PInt int
  | PFloat real
  | PStr string
  | PDict "(string \<times> pyval) list"

text \<open>
  \<open>Format tpl v\<close> is the line \<open>tpl.format(v)\<close> written to standard output.
  \<open>SystemExit out c\<close> is \<open>print(out); sys.exit(c)\<close>. \<open>LoadError\<close> is any failure of the
  statistics loader, which is outside the two source files.
\<close>

datatype printed = Format string pyval

datatype error =
    IndexError
  | RuntimeError
  | ZeroDivisionError
  | KeyError string
  | TypeError
  | AttributeError
  | LoadError
  | SystemExit printed int

text \<open>
  A tensor of rank three: its three sizes and its entries. Entries outside the sizes are
  never read by the model.
\<close>

record tensor3 =
  size0 :: nat
  size1 :: nat
  size2 :: nat
  at3 :: "nat \<Rightarrow> nat \<Rightarrow> nat \<Rightarrow> real"

section \<open>The max-pooling loss\<close>

subsection \<open>Tensor operations used by the loss\<close>

text \<open>
  Modelled from the spec: \<open>kws.utils.mask.padding_mask\<close> is imported by
  \<^verbatim>\<open>loss.py\<close> and is not among the source files. The spec (section 3) gives the mask the
  shape (batch, time), with \<open>mask[i, t]\<close> true iff \<open>t \<ge> length[i]\<close>, as a pure function of
  the length vector alone, the time extent being the batch's maximum sequence length.
  The maximum of an empty length vector does not exist.
\<close>

definition padding_mask :: "int list \<Rightarrow> error + bool list list" where
  "padding_mask lengths =
     (if lengths = [] then Inl RuntimeError
      else Inr (map (\<lambda>l. map (\<lambda>t. l \<le> int t) [0..<nat (Max (set lengths))]) lengths))"

text \<open>\<open>torch.clamp(x, lo, hi)\<close> on one entry.\<close>

definition clamp :: "real \<Rightarrow> real \<Rightarrow> real \<Rightarrow> real" where
  "clamp x lo hi = min (max x lo) hi"

text \<open>
  \<open>m[:k] = True\<close> on a one-dimensional mask, with Python's slice bounds: a negative \<open>k\<close>
  counts from the end, and the bound is cut to the length of \<open>m\<close>.
\<close>

definition slice_end :: "nat \<Rightarrow> int \<Rightarrow> nat" where
  "slice_end n k = (if k < 0 then nat (max (int n + k) 0) else nat (min k (int n)))"

definition set_prefix_true :: "bool list \<Rightarrow> int \<Rightarrow> bool list" where
  "set_prefix_true m k = replicate (slice_end (length m) k) True @ drop (slice_end (length m) k) m"

text \<open>
  \<open>x.masked_fill(m, v)\<close> on a vector. The method is the out-of-place one: \<open>x\<close> and the mask
  are broadcast to a common shape, which exists when the two have the same length or one
  of them has length one, and the result has that shape.
\<close>

definition masked_fill :: "real list \<Rightarrow> bool list \<Rightarrow> real \<Rightarrow> error + real list" where
  "masked_fill xs m v =
     (if length m = length xs then Inr (map (\<lambda>(x, b). if b then v else x) (zip xs m))
      else if length m = 1 then Inr (map (\<lambda>x. if m ! 0 then v else x) xs)
      else if length xs = 1 then Inr (map (\<lambda>b. if b then v else xs ! 0) m)
      else Inl RuntimeError)"

text \<open>\<open>x.max()\<close> and \<open>x.min()\<close> of a vector; they fail on an empty one.\<close>

definition tmax :: "real list \<Rightarrow> error + real" where
  "tmax xs = (if xs = [] then Inl RuntimeError else Inr (Max (set xs)))"

definition tmin :: "real list \<Rightarrow> error + real" where
  "tmin xs = (if xs = [] then Inl RuntimeError else Inr (Min (set xs)))"

text \<open>The column \<open>logits[i, :, j]\<close>.\<close>

definition column :: "tensor3 \<Rightarrow> nat \<Rightarrow> nat \<Rightarrow> real list" where
  "column x i j = map (\<lambda>t. at3 x i t j) [0..<size1 x]"

text \<open>The floor of the clamp, the literal \<open>1e-8\<close>.\<close>

definition floor_prob :: real where
  "floor_prob = 1 / 10 ^ 8"

subsection \<open>One term of the loss\<close>

text \<open>
  The body of the double loop for utterance \<open>i\<close> and keyword \<open>j\<close>: the value added to
  \<open>loss\<close>. \<open>target[i]\<close> and \<open>mask[i]\<close> raise when \<open>i\<close> is out of range.
\<close>

definition loss_term ::
  "tensor3 \<Rightarrow> int list \<Rightarrow> bool list list \<Rightarrow> int \<Rightarrow> nat \<Rightarrow> nat \<Rightarrow> error + real" where
  "loss_term logits target msk min_duration i j =
     (if length target \<le> i then Inl IndexError
      else if length msk \<le> i then Inl IndexError
      else if target ! i = int j then
        (case masked_fill (column logits i j) (set_prefix_true (msk ! i) min_duration) 0 of
           Inl e \<Rightarrow> Inl e
         | Inr prob \<Rightarrow>
             (case tmax (map (\<lambda>p. clamp p floor_prob 1) prob) of
                Inl e \<Rightarrow> Inl e
              | Inr max_prob \<Rightarrow> Inr (- ln max_prob)))
      else
        (case masked_fill (map (\<lambda>p. 1 - p) (column logits i j)) (msk ! i) 1 of
           Inl e \<Rightarrow> Inl e
         | Inr prob \<Rightarrow>
             (case tmin (map (\<lambda>p. clamp p floor_prob 1) prob) of
                Inl e \<Rightarrow> Inl e
              | Inr min_prob \<Rightarrow> Inr (- ln min_prob))))"

text \<open>
  A \<open>for\<close> loop that adds \<open>f k\<close> to an accumulator for each \<open>k\<close> in turn and stops at the
  first error.
\<close>

fun accumulate :: "(nat \<Rightarrow> error + 'a) \<Rightarrow> nat list \<Rightarrow> 'a::monoid_add \<Rightarrow> error + 'a" where
  "accumulate f [] acc = Inr acc"
| "accumulate f (k # ks) acc =
     (case f k of Inl e \<Rightarrow> Inl e | Inr c \<Rightarrow> accumulate f ks (acc + c))"

text \<open>The outer loop over utterances, each running the inner loop over keywords.\<close>

fun utt_loop ::
  "(nat \<Rightarrow> nat \<Rightarrow> error + real) \<Rightarrow> nat list \<Rightarrow> nat list \<Rightarrow> real \<Rightarrow> error + real" where
  "utt_loop f [] js loss = Inr loss"
| "utt_loop f (i # is) js loss =
     (case accumulate (f i) js loss of Inl e \<Rightarrow> Inl e | Inr l \<Rightarrow> utt_loop f is js l)"

subsection \<open>The accuracy pass\<close>

text \<open>
  \<open>logits.masked_fill(mask.unsqueeze(-1), 0.0)\<close>, out of place as well: the mask of shape
  (B', L, 1) and \<open>logits\<close> of shape (B, T, D) are broadcast to a common shape. In each of
  the first two dimensions the sizes must be equal or one of them must be one; the side
  of size one is repeated, and the result has the other size. The mask comes from
  \<open>padding_mask\<close> and has at least one row.
\<close>

definition masked_fill3 :: "tensor3 \<Rightarrow> bool list list \<Rightarrow> real \<Rightarrow> error + tensor3" where
  "masked_fill3 x msk v =
     (let b = length msk; l = length (hd msk) in
      if (b = size0 x \<or> b = 1 \<or> size0 x = 1) \<and> (l = size1 x \<or> l = 1 \<or> size1 x = 1) then
        Inr \<lparr>size0 = (if b = size0 x \<or> b = 1 then size0 x else b),
             size1 = (if l = size1 x \<or> l = 1 then size1 x else l),
             size2 = size2 x,
             at3 = \<lambda>i t j.
               if msk ! (if b = size0 x then i else if b = 1 then 0 else i)
                      ! (if l = size1 x then t else if l = 1 then 0 else t)
               then v
               else at3 x (if b = size0 x \<or> b = 1 then i else 0)
                          (if l = size1 x \<or> l = 1 then t else 0) j\<rparr>
      else Inl RuntimeError)"

text \<open>
  \<open>logits.max(1)\<close>, values only (the indices are not used): the maximum over time for
  each utterance and keyword; it fails when there is no frame.
\<close>

definition max_dim1 :: "tensor3 \<Rightarrow> error + real list list" where
  "max_dim1 x =
     (if size1 x = 0 then Inl IndexError
      else Inr (map (\<lambda>i. map (\<lambda>j. Max (set (column x i j))) [0..<size2 x]) [0..<size0 x]))"

text \<open>
  \<open>v.max(0)\<close> of a vector: the maximum and the index of its first occurrence; it fails on
  an empty vector.
\<close>

definition max_dim0 :: "real list \<Rightarrow> error + real \<times> nat" where
  "max_dim0 xs =
     (if xs = [] then Inl IndexError
      else Inr (Max (set xs), length (takeWhile (\<lambda>x. x \<noteq> Max (set xs)) xs)))"

text \<open>
  The body of the accuracy loop: what utterance \<open>i\<close> adds to \<open>num_correct\<close>.
  \<open>and\<close> evaluates \<open>target[i]\<close> only when its left operand holds.
\<close>

definition utt_correct :: "real list list \<Rightarrow> int list \<Rightarrow> nat \<Rightarrow> error + nat" where
  "utt_correct max_logits target i =
     (case max_dim0 (max_logits ! i) of
        Inl e \<Rightarrow> Inl e
      | Inr (max_p, idx) \<Rightarrow>
          (case (if 1 / 2 < max_p
                 then (if length target \<le> i then Inl IndexError
                       else Inr (if int idx = target ! i then 1 else 0))
                 else Inr 0) of
             Inl e \<Rightarrow> Inl e
           | Inr a \<Rightarrow>
               (case (if max_p < 1 / 2
                      then (if length target \<le> i then Inl IndexError
                            else Inr (if target ! i < 0 then 1 else 0))
                      else Inr 0) of
                  Inl e \<Rightarrow> Inl e
                | Inr b \<Rightarrow> Inr (a + b))))"

subsection \<open>The whole function\<close>

definition max_polling_loss ::
  "tensor3 \<Rightarrow> int list \<Rightarrow> int list \<Rightarrow> int \<Rightarrow> error + real \<times> real" where
  "max_polling_loss logits target lengths min_duration =
     (case padding_mask lengths of
        Inl e \<Rightarrow> Inl e
      | Inr msk \<Rightarrow>
          (let num_utts = size0 logits; num_keywords = size2 logits in
           case utt_loop (loss_term logits target msk min_duration)
                  [0..<num_utts] [0..<num_keywords] 0 of
             Inl e \<Rightarrow> Inl e
           | Inr loss_sum \<Rightarrow>
               if num_utts = 0 then Inl ZeroDivisionError
               else
                 (case masked_fill3 logits msk 0 of
                    Inl e \<Rightarrow> Inl e
                  | Inr masked \<Rightarrow>
                      (case max_dim1 masked of
                         Inl e \<Rightarrow> Inl e
                       | Inr max_logits \<Rightarrow>
                           (case accumulate (utt_correct max_logits target) [0..<num_utts] 0 of
                              Inl e \<Rightarrow> Inl e
                            | Inr num_correct \<Rightarrow>
                                Inr (loss_sum / real num_utts,
                                     real num_correct / real num_utts))))))"

text \<open>
  The invariants of the data model (spec, section 3): at least one utterance and one
  keyword, one target and one length per utterance, every length positive and at most
  the time extent, and the time extent equal to the longest length of the batch.
\<close>

definition well_formed :: "tensor3 \<Rightarrow> int list \<Rightarrow> int list \<Rightarrow> bool" where
  "well_formed logits target lengths \<longleftrightarrow>
     0 < size0 logits \<and> 0 < size2 logits \<and>
     length target = size0 logits \<and> length lengths = size0 logits \<and>
     (\<forall>l \<in> set lengths. 0 < l \<and> l \<le> int (size1 logits)) \<and>
     int (size1 logits) \<in> set lengths"

subsection \<open>Quantities the properties are stated with\<close>

text \<open>
  The value that the pair \<open>(i, j)\<close> adds to the loss in a call of \<open>max_polling_loss\<close>:
  the loop body under the mask that the call computes from \<open>lengths\<close>.
\<close>

definition contribution ::
  "tensor3 \<Rightarrow> int list \<Rightarrow> int list \<Rightarrow> int \<Rightarrow> nat \<Rightarrow> nat \<Rightarrow> error + real" where
  "contribution logits target lengths min_duration i j =
     (case padding_mask lengths of
        Inl e \<Rightarrow> Inl e
      | Inr msk \<Rightarrow> loss_term logits target msk min_duration i j)"

text \<open>
  The frames of utterance \<open>i\<close> that are not padding (\<open>t < lengths[i]\<close>), and among them those
  not below \<open>min_duration\<close>; the maximum of column \<open>j\<close> over a list of frames.
\<close>

definition valid_frames :: "tensor3 \<Rightarrow> int list \<Rightarrow> nat \<Rightarrow> nat list" where
  "valid_frames logits lengths i = filter (\<lambda>t. int t < lengths ! i) [0..<size1 logits]"

definition eligible_frames :: "tensor3 \<Rightarrow> int list \<Rightarrow> int \<Rightarrow> nat \<Rightarrow> nat list" where
  "eligible_frames logits lengths min_duration i =
     filter (\<lambda>t. int t < lengths ! i \<and> min_duration \<le> int t) [0..<size1 logits]"

definition max_over :: "tensor3 \<Rightarrow> nat \<Rightarrow> nat \<Rightarrow> nat list \<Rightarrow> real" where
  "max_over logits i j ts = Max ((\<lambda>t. at3 logits i t j) ` set ts)"

text \<open>
  What utterance \<open>i\<close> adds to \<open>num_correct\<close> in a call of \<open>max_polling_loss\<close>, and the
  maximum of the posteriors of utterance \<open>i\<close> over its valid frames and all keywords.
\<close>

definition correct_increment :: "tensor3 \<Rightarrow> int list \<Rightarrow> int list \<Rightarrow> nat \<Rightarrow> error + nat" where
  "correct_increment logits target lengths i =
     (case padding_mask lengths of
        Inl e \<Rightarrow> Inl e
      | Inr msk \<Rightarrow>
          (case masked_fill3 logits msk 0 of
             Inl e \<Rightarrow> Inl e
           | Inr masked \<Rightarrow>
               (case max_dim1 masked of
                  Inl e \<Rightarrow> Inl e
                | Inr max_logits \<Rightarrow> utt_correct max_logits target i)))"

definition valid_max :: "tensor3 \<Rightarrow> int list \<Rightarrow> nat \<Rightarrow> real" where
  "valid_max logits lengths i =
     Max ((\<lambda>(t, j). at3 logits i t j) ` (set (valid_frames logits lengths i) \<times> {0..<size2 logits}))"

text \<open>A batch of one utterance with two frames and two keywords.\<close>

definition batch_example :: tensor3 where
  "batch_example =
     \<lparr>size0 = 1, size1 = 2, size2 = 2,
      at3 = (\<lambda>i t j. [ [9 / 10, 1 / 5], [1 / 10, 3 / 10] ] ! t ! j)\<rparr>"

text \<open>A batch of two utterances with one frame and one keyword, every posterior one half.\<close>

definition half_example :: tensor3 where
  "half_example = \<lparr>size0 = 2, size1 = 1, size2 = 1, at3 = (\<lambda>i t j. 1 / 2)\<rparr>"

section \<open>The model and its construction\<close>

subsection \<open>Operations on configuration values\<close>

text \<open>
  \<open>v[k]\<close> with a string key: a dictionary without the key raises \<open>KeyError\<close>, and a value
  that is no dictionary cannot be subscripted with a string.
\<close>

definition subscript :: "pyval \<Rightarrow> string \<Rightarrow> error + pyval" where
  "subscript v k =
     (case v of
        PDict d \<Rightarrow> (case map_of d k of None \<Rightarrow> Inl (KeyError k) | Some x \<Rightarrow> Inr x)
      | _ \<Rightarrow> Inl TypeError)"

text \<open>\<open>v.get(k, dflt)\<close>: only a dictionary has the method.\<close>

definition get :: "pyval \<Rightarrow> string \<Rightarrow> pyval \<Rightarrow> error + pyval" where
  "get v k dflt =
     (case v of
        PDict d \<Rightarrow> (case map_of d k of None \<Rightarrow> Inr dflt | Some x \<Rightarrow> Inr x)
      | _ \<Rightarrow> Inl AttributeError)"

text \<open>
  \<open>k in v\<close> for a string \<open>k\<close>: a key of a dictionary, a substring of a string, and an error
  for the other values, which are not iterable.
\<close>

definition contains :: "pyval \<Rightarrow> string \<Rightarrow> error + bool" where
  "contains v k =
     (case v of
        PDict d \<Rightarrow> Inr (map_of d k \<noteq> None)
      | PStr s \<Rightarrow> Inr (sublist k s)
      | _ \<Rightarrow> Inl TypeError)"

text \<open>The truth value of a configuration value in an \<open>if\<close>.\<close>

fun truthy :: "pyval \<Rightarrow> bool" where
  "truthy PNone = False"
| "truthy (PBool b) = b"
| "truthy (PInt n) = (n \<noteq> 0)"
| "truthy (PFloat r) = (r \<noteq> 0)"
| "truthy (PStr s) = (s \<noteq> [])"
| "truthy (PDict d) = (d \<noteq> [])"

subsection \<open>Sub-modules and the model class\<close>

text \<open>
  The classes of the sub-modules are imported from outside the two source files. A
  sub-module is kept as the constructor call that builds it, with the arguments as they
  are passed. The constructors are taken not to fail: what they reject (a hidden size of
  zero for \<open>torch.nn.GRU\<close>, for one) is outside this model. \<open>GRU i h n\<close> is
  \<open>torch.nn.GRU(i, h, num_layers=n, batch_first=True)\<close>, the last argument of \<open>MDTC\<close> is
  \<open>causal\<close>, and \<open>Linear i o\<close> is \<open>torch.nn.Linear(i, o)\<close>.
\<close>

datatype block_class = DsCnnBlock | CnnBlock

datatype nn_module =
    GlobalCMVN "real list" "real list" pyval
  | LinearSubsampling1 pyval pyval
  | Conv1dSubsampling1 pyval pyval
  | GRU pyval pyval pyval
  | TCN pyval pyval pyval pyval block_class
  | MDTC pyval pyval pyval pyval pyval bool
  | Linear pyval pyval

record KWSModel =
  idim :: pyval
  odim :: pyval
  hdim :: pyval
  global_cmvn :: "nn_module option"
  preprocessing :: "nn_module option"
  backbone :: nn_module
  classifier :: nn_module

text \<open>\<open>KWSModel.__init__\<close>: the classifier is built from \<open>hdim\<close> and \<open>odim\<close>.\<close>

definition KWSModel_init ::
  "pyval \<Rightarrow> pyval \<Rightarrow> pyval \<Rightarrow> nn_module option \<Rightarrow> nn_module option \<Rightarrow> nn_module \<Rightarrow> KWSModel" where
  "KWSModel_init idim' odim' hdim' global_cmvn' preprocessing' backbone' =
     \<lparr>idim = idim', odim = odim', hdim = hdim', global_cmvn = global_cmvn',
      preprocessing = preprocessing', backbone = backbone',
      classifier = Linear hdim' odim'\<rparr>"

subsection \<open>The forward pass\<close>

definition sigmoid :: "real \<Rightarrow> real" where
  "sigmoid x = 1 / (1 + exp (- x))"

text \<open>\<open>torch.sigmoid\<close> on every entry.\<close>

definition sigmoid3 :: "tensor3 \<Rightarrow> tensor3" where
  "sigmoid3 x = x\<lparr>at3 := \<lambda>i t j. sigmoid (at3 x i t j)\<rparr>"

text \<open>
  \<open>KWSModel.forward\<close>. What a sub-module computes is a parameter: \<open>call m x\<close> is \<open>m(x)\<close>
  for the normalization, the projection and the classifier, and \<open>call_backbone m x\<close> is
  \<open>m(x)\<close> for the backbone, which returns a pair whose second component is dropped.
  Either may raise. A sub-module that is present is true in \<open>if self.preprocessing\<close>.
\<close>

definition forward ::
  "(nn_module \<Rightarrow> tensor3 \<Rightarrow> error + tensor3) \<Rightarrow>
   (nn_module \<Rightarrow> tensor3 \<Rightarrow> error + tensor3 \<times> 'h) \<Rightarrow>
   KWSModel \<Rightarrow> tensor3 \<Rightarrow> error + tensor3" where
  "forward call call_backbone self x =
     (case (case global_cmvn self of None \<Rightarrow> Inr x | Some g \<Rightarrow> call g x) of
        Inl e \<Rightarrow> Inl e
      | Inr x1 \<Rightarrow>
          (case (case preprocessing self of None \<Rightarrow> Inr x1 | Some p \<Rightarrow> call p x1) of
             Inl e \<Rightarrow> Inl e
           | Inr x2 \<Rightarrow>
               (case call_backbone (backbone self) x2 of
                  Inl e \<Rightarrow> Inl e
                | Inr (x3, _) \<Rightarrow>
                    (case call (classifier self) x3 of
                       Inl e \<Rightarrow> Inl e
                     | Inr x4 \<Rightarrow> Inr (sigmoid3 x4)))))"

subsection \<open>Construction from a configuration\<close>

text \<open>
  The first block of \<open>init_model\<close>: the optional global normalization. \<open>load_cmvn\<close> is
  imported from outside the two source files and is a parameter: it reads the
  statistics file and returns the mean and the inverse standard deviation, or fails.
\<close>

definition init_cmvn ::
  "(pyval \<Rightarrow> error + real list \<times> real list) \<Rightarrow> pyval \<Rightarrow> error + nn_module option" where
  "init_cmvn load_cmvn configs =
     (case get configs ''cmvn'' (PDict []) of
        Inl e \<Rightarrow> Inl e
      | Inr cmvn \<Rightarrow>
          (case contains cmvn ''cmvn_file'' of
             Inl e \<Rightarrow> Inl e
           | Inr present \<Rightarrow>
               if \<not> present then Inr None
               else
                 (case subscript cmvn ''cmvn_file'' of
                    Inl e \<Rightarrow> Inl e
                  | Inr cmvn_file \<Rightarrow>
                      if cmvn_file = PNone then Inr None
                      else
                        (case load_cmvn cmvn_file of
                           Inl e \<Rightarrow> Inl e
                         | Inr (mean, istd) \<Rightarrow>
                             (case subscript cmvn ''norm_var'' of
                                Inl e \<Rightarrow> Inl e
                              | Inr norm_var \<Rightarrow>
                                  Inr (Some (GlobalCMVN mean istd norm_var)))))))"

text \<open>The block that selects the projection by \<open>configs['preprocessing']['type']\<close>.\<close>

definition init_preprocessing :: "pyval \<Rightarrow> pyval \<Rightarrow> pyval \<Rightarrow> error + nn_module option" where
  "init_preprocessing configs input_dim hidden_dim =
     (case subscript configs ''preprocessing'' of
        Inl e \<Rightarrow> Inl e
      | Inr prep \<Rightarrow>
          (case subscript prep ''type'' of
             Inl e \<Rightarrow> Inl e
           | Inr prep_type \<Rightarrow>
               if prep_type = PStr ''linear'' then
                 Inr (Some (LinearSubsampling1 input_dim hidden_dim))
               else if prep_type = PStr ''cnn1d_s1'' then
                 Inr (Some (Conv1dSubsampling1 input_dim hidden_dim))
               else if prep_type = PStr ''none'' then Inr None
               else Inl (SystemExit (Format ''Unknown preprocessing type {}'' prep_type) 1)))"

text \<open>The three branches of the block that selects the backbone.\<close>

definition init_gru :: "pyval \<Rightarrow> pyval \<Rightarrow> error + nn_module \<times> pyval" where
  "init_gru bb hidden_dim =
     (case subscript bb ''num_layers'' of
        Inl e \<Rightarrow> Inl e
      | Inr num_layers \<Rightarrow> Inr (GRU hidden_dim hidden_dim num_layers, hidden_dim))"

definition init_tcn :: "pyval \<Rightarrow> pyval \<Rightarrow> error + nn_module \<times> pyval" where
  "init_tcn bb hidden_dim =
     (case subscript bb ''num_layers'' of
        Inl e \<Rightarrow> Inl e
      | Inr num_layers \<Rightarrow>
          (case get bb ''ds'' (PBool False) of
             Inl e \<Rightarrow> Inl e
           | Inr ds \<Rightarrow>
               (let block_class = (if truthy ds then DsCnnBlock else CnnBlock) in
                case get bb ''kernel_size'' (PInt 8) of
                  Inl e \<Rightarrow> Inl e
                | Inr kernel_size \<Rightarrow>
                    (case get bb ''drouput'' (PFloat (1 / 10)) of
                       Inl e \<Rightarrow> Inl e
                     | Inr dropout \<Rightarrow>
                         Inr (TCN num_layers hidden_dim kernel_size dropout block_class,
                              hidden_dim)))))"

definition init_mdtc :: "pyval \<Rightarrow> pyval \<Rightarrow> error + nn_module \<times> pyval" where
  "init_mdtc bb input_dim =
     (case subscript bb ''stack_size'' of
        Inl e \<Rightarrow> Inl e
      | Inr stack_size \<Rightarrow>
          (case subscript bb ''num_stack'' of
             Inl e \<Rightarrow> Inl e
           | Inr num_stack \<Rightarrow>
               (case subscript bb ''kernel_size'' of
                  Inl e \<Rightarrow> Inl e
                | Inr kernel_size \<Rightarrow>
                    (case subscript bb ''hidden_dim'' of
                       Inl e \<Rightarrow> Inl e
                     | Inr hidden_dim \<Rightarrow>
                         Inr (MDTC num_stack stack_size input_dim hidden_dim kernel_size True,
                              hidden_dim)))))"

text \<open>
  The block that selects the backbone by \<open>configs['backbone']['type']\<close>. It returns the
  backbone together with the value that the variable \<open>hidden_dim\<close> holds afterwards: the
  \<open>mdtc\<close> branch assigns it anew.
\<close>

definition init_backbone :: "pyval \<Rightarrow> pyval \<Rightarrow> pyval \<Rightarrow> error + nn_module \<times> pyval" where
  "init_backbone configs input_dim hidden_dim =
     (case subscript configs ''backbone'' of
        Inl e \<Rightarrow> Inl e
      | Inr bb \<Rightarrow>
          (case subscript bb ''type'' of
             Inl e \<Rightarrow> Inl e
           | Inr backbone_type \<Rightarrow>
               if backbone_type = PStr ''gru'' then init_gru bb hidden_dim
               else if backbone_type = PStr ''tcn'' then init_tcn bb hidden_dim
               else if backbone_type = PStr ''mdtc'' then init_mdtc bb input_dim
               else Inl (SystemExit (Format ''Unknown body type {}'' backbone_type) 1)))"

definition init_model ::
  "(pyval \<Rightarrow> error + real list \<times> real list) \<Rightarrow> pyval \<Rightarrow> error + KWSModel" where
  "init_model load_cmvn configs =
     (case init_cmvn load_cmvn configs of
        Inl e \<Rightarrow> Inl e
      | Inr global_cmvn' \<Rightarrow>
          (case subscript configs ''input_dim'' of
             Inl e \<Rightarrow> Inl e
           | Inr input_dim \<Rightarrow>
               (case subscript configs ''output_dim'' of
                  Inl e \<Rightarrow> Inl e
                | Inr output_dim \<Rightarrow>
                    (case subscript configs ''hidden_dim'' of
                       Inl e \<Rightarrow> Inl e
                     | Inr hidden_dim \<Rightarrow>
                         (case init_preprocessing configs input_dim hidden_dim of
                            Inl e \<Rightarrow> Inl e
                          | Inr preprocessing' \<Rightarrow>
                              (case init_backbone configs input_dim hidden_dim of
                                 Inl e \<Rightarrow> Inl e
                               | Inr (backbone', hidden_dim') \<Rightarrow>
                                   Inr (KWSModel_init input_dim output_dim hidden_dim'
                                          global_cmvn' preprocessing' backbone')))))))"

subsection \<open>Example configurations and sub-modules\<close>

text \<open>A statistics loader that always fails; the examples have no \<open>cmvn\<close> section.\<close>

definition no_loader :: "pyval \<Rightarrow> error + real list \<times> real list" where
  "no_loader f = Inl LoadError"

text \<open>
  Configurations for the three backbones. In \<open>mdtc_config\<close> the hidden dimension at the top
  level differs from that of the backbone section; \<open>tcn_config\<close> gives a rate under the
  key \<open>dropout\<close> only.
\<close>

definition mdtc_config :: pyval where
  "mdtc_config =
     PDict [(''input_dim'', PInt 80), (''output_dim'', PInt 2), (''hidden_dim'', PInt 64),
            (''preprocessing'', PDict [(''type'', PStr ''none'')]),
            (''backbone'', PDict [(''type'', PStr ''mdtc''), (''num_stack'', PInt 4),
                                  (''stack_size'', PInt 4), (''kernel_size'', PInt 5),
                                  (''hidden_dim'', PInt 32)])]"

definition gru_config :: pyval where
  "gru_config =
     PDict [(''input_dim'', PInt 80), (''output_dim'', PInt 2), (''hidden_dim'', PInt 64),
            (''preprocessing'', PDict [(''type'', PStr ''linear'')]),
            (''backbone'', PDict [(''type'', PStr ''gru''), (''num_layers'', PInt 2)])]"

definition tcn_config :: pyval where
  "tcn_config =
     PDict [(''input_dim'', PInt 80), (''output_dim'', PInt 2), (''hidden_dim'', PInt 64),
            (''preprocessing'', PDict [(''type'', PStr ''linear'')]),
            (''backbone'', PDict [(''type'', PStr ''tcn''), (''num_layers'', PInt 4),
                                  (''dropout'', PFloat (1 / 2))])]"

text \<open>Configurations with a type that is not among the known ones.\<close>

definition unknown_prep_config :: pyval where
  "unknown_prep_config =
     PDict [(''input_dim'', PInt 80), (''output_dim'', PInt 2), (''hidden_dim'', PInt 64),
            (''preprocessing'', PDict [(''type'', PStr ''cnn2d'')]),
            (''backbone'', PDict [(''type'', PStr ''gru''), (''num_layers'', PInt 2)])]"

definition unknown_backbone_config :: pyval where
  "unknown_backbone_config =
     PDict [(''input_dim'', PInt 80), (''output_dim'', PInt 2), (''hidden_dim'', PInt 64),
            (''preprocessing'', PDict [(''type'', PStr ''none'')]),
            (''backbone'', PDict [(''type'', PStr ''lstm''), (''num_layers'', PInt 2)])]"

text \<open>
  Sub-modules that all return their input, the backbone with an empty second component,
  and a model to run them in.
\<close>

definition id_call :: "nn_module \<Rightarrow> tensor3 \<Rightarrow> error + tensor3" where
  "id_call m x = Inr x"

definition id_backbone :: "nn_module \<Rightarrow> tensor3 \<Rightarrow> error + tensor3 \<times> unit" where
  "id_backbone m x = Inr (x, ())"

definition example_model :: KWSModel where
  "example_model =
     KWSModel_init (PInt 2) (PInt 2) (PInt 2) None (Some (LinearSubsampling1 (PInt 2) (PInt 2)))
       (GRU (PInt 2) (PInt 2) (PInt 1))"

section \<open>Properties of the loss\<close>

subsection \<open>Auxiliary facts\<close>

lemma clamp_mono: "x \<le> y \<Longrightarrow> clamp x lo hi \<le> clamp y lo hi"
  by (simp add: clamp_def min_def max_def)

lemma clamp_floor: "clamp x floor_prob 1 \<ge> floor_prob"
  by (simp add: clamp_def floor_prob_def min_def max_def)

lemma clamp_ceil: "clamp x floor_prob 1 \<le> 1"
  by (simp add: clamp_def)

lemma clamp_zero: "clamp 0 floor_prob 1 = floor_prob"
  by (simp add: clamp_def floor_prob_def)

lemma clamp_one: "clamp 1 floor_prob 1 = 1"
  by (simp add: clamp_def floor_prob_def)

lemma wf_Max_lengths:
  assumes "well_formed logits target lengths"
  shows "Max (set lengths) = int (size1 logits)"
  using assms by (intro Max_eqI) (auto simp: well_formed_def)

lemma wf_padding_mask:
  assumes "well_formed logits target lengths"
  shows "padding_mask lengths =
           Inr (map (\<lambda>l. map (\<lambda>t. l \<le> int t) [0..<size1 logits]) lengths)"
proof -
  have "lengths \<noteq> []" using assms by (auto simp: well_formed_def)
  then show ?thesis by (simp add: padding_mask_def wf_Max_lengths[OF assms])
qed

lemma masked_fill_aligned:
  "masked_fill (map f [0..<n]) (map g [0..<n]) v = Inr (map (\<lambda>t. if g t then v else f t) [0..<n])"
  by (simp add: masked_fill_def zip_map_map zip_same_conv_map)

lemma set_prefix_true_row:
  "set_prefix_true (map g [0..<n]) k = map (\<lambda>t. t < slice_end n k \<or> g t) [0..<n]"
proof -
  have le: "slice_end n k \<le> n" by (auto simp: slice_end_def)
  show ?thesis
    by (rule nth_equalityI) (use le in \<open>auto simp: set_prefix_true_def nth_append\<close>)
qed

lemma slice_end_nonneg: "0 \<le> k \<Longrightarrow> t < n \<Longrightarrow> t < slice_end n k \<longleftrightarrow> int t < k"
  by (auto simp: slice_end_def)

lemma loss_term_positive:
  assumes "i < length target" "i < length lengths" "target ! i = int j" "0 < size1 logits"
  shows "loss_term logits target (map (\<lambda>l. map (\<lambda>t. l \<le> int t) [0..<size1 logits]) lengths) md i j =
     Inr (- ln (Max ((\<lambda>t. clamp (if t < slice_end (size1 logits) md \<or> lengths ! i \<le> int t then 0 else at3 logits i t j) floor_prob 1) ` {0..<size1 logits})))"
  using assms
  by (simp add: loss_term_def column_def set_prefix_true_row masked_fill_aligned tmax_def o_def
      image_image cong: if_cong)

lemma loss_term_negative:
  assumes "i < length target" "i < length lengths" "target ! i \<noteq> int j" "0 < size1 logits"
  shows "loss_term logits target (map (\<lambda>l. map (\<lambda>t. l \<le> int t) [0..<size1 logits]) lengths) md i j =
     Inr (- ln (Min ((\<lambda>t. clamp (if lengths ! i \<le> int t then 1 else 1 - at3 logits i t j) floor_prob 1) ` {0..<size1 logits})))"
  using assms
  by (simp add: loss_term_def column_def masked_fill_aligned tmin_def o_def
      image_image cong: if_cong)


lemma contribution_wf:
  assumes "well_formed logits target lengths"
  shows "contribution logits target lengths md i j =
     loss_term logits target (map (\<lambda>l. map (\<lambda>t. l \<le> int t) [0..<size1 logits]) lengths) md i j"
  by (simp add: contribution_def wf_padding_mask[OF assms])

lemma wf_size1_pos: "well_formed logits target lengths \<Longrightarrow> 0 < size1 logits"
  by (fastforce simp: well_formed_def)

lemma Max_clamp_eligible:
  fixes p :: "nat \<Rightarrow> real"
  assumes ne: "ts \<noteq> []" and ts: "set ts = {t. t < n \<and> \<not> excl t}"
  shows "Max ((\<lambda>t. clamp (if excl t then 0 else p t) floor_prob 1) ` {0..<n}) =
         clamp (Max (p ` set ts)) floor_prob 1"
proof (rule Max_eqI)
  show "finite ((\<lambda>t. clamp (if excl t then 0 else p t) floor_prob 1) ` {0..<n})" by simp
next
  fix y assume "y \<in> (\<lambda>t. clamp (if excl t then 0 else p t) floor_prob 1) ` {0..<n}"
  then obtain t where t: "t < n" and y: "y = clamp (if excl t then 0 else p t) floor_prob 1"
    by auto
  show "y \<le> clamp (Max (p ` set ts)) floor_prob 1"
  proof (cases "excl t")
    case True
    then show ?thesis using y clamp_floor[of "Max (p ` set ts)"] by (simp add: clamp_zero)
  next
    case False
    then have "t \<in> set ts" using t ts by simp
    then have "p t \<le> Max (p ` set ts)" by simp
    then show ?thesis using y False by (simp add: clamp_mono)
  qed
next
  have "Max (p ` set ts) \<in> p ` set ts" using ne by (intro Max_in) auto
  then obtain t where "t \<in> set ts" and eq: "Max (p ` set ts) = p t" by auto
  then have "t < n" "\<not> excl t" using ts by auto
  then show "clamp (Max (p ` set ts)) floor_prob 1 \<in>
        (\<lambda>t. clamp (if excl t then 0 else p t) floor_prob 1) ` {0..<n}"
    using eq by (intro image_eqI[where x = t]) auto
qed

lemma Min_clamp_valid:
  fixes p :: "nat \<Rightarrow> real"
  assumes ne: "ts \<noteq> []" and ts: "set ts = {t. t < n \<and> \<not> excl t}"
  shows "Min ((\<lambda>t. clamp (if excl t then 1 else 1 - p t) floor_prob 1) ` {0..<n}) =
         clamp (1 - Max (p ` set ts)) floor_prob 1"
proof (rule Min_eqI)
  show "finite ((\<lambda>t. clamp (if excl t then 1 else 1 - p t) floor_prob 1) ` {0..<n})" by simp
next
  fix y assume "y \<in> (\<lambda>t. clamp (if excl t then 1 else 1 - p t) floor_prob 1) ` {0..<n}"
  then obtain t where t: "t < n" and y: "y = clamp (if excl t then 1 else 1 - p t) floor_prob 1"
    by auto
  show "clamp (1 - Max (p ` set ts)) floor_prob 1 \<le> y"
  proof (cases "excl t")
    case True
    then show ?thesis using y clamp_ceil[of "1 - Max (p ` set ts)"] by (simp add: clamp_one)
  next
    case False
    then have "t \<in> set ts" using t ts by simp
    then have "p t \<le> Max (p ` set ts)" by simp
    then show ?thesis using y False by (simp add: clamp_mono)
  qed
next
  have "Max (p ` set ts) \<in> p ` set ts" using ne by (intro Max_in) auto
  then obtain t where "t \<in> set ts" and eq: "Max (p ` set ts) = p t" by auto
  then have "t < n" "\<not> excl t" using ts by auto
  then show "clamp (1 - Max (p ` set ts)) floor_prob 1 \<in>
        (\<lambda>t. clamp (if excl t then 1 else 1 - p t) floor_prob 1) ` {0..<n}"
    using eq by (intro image_eqI[where x = t]) auto
qed

lemma accumulate_Inr:
  "accumulate f ks a = Inr r \<longleftrightarrow>
     (\<forall>k \<in> set ks. \<exists>c. f k = Inr c) \<and> r = a + sum_list (map (\<lambda>k. projr (f k)) ks)"
proof (induction ks arbitrary: a)
  case Nil
  show ?case by auto
next
  case (Cons k ks)
  show ?case
  proof (cases "f k")
    case (Inl e)
    then show ?thesis by auto
  next
    case (Inr c)
    then show ?thesis using Cons.IH[of "a + c"] by (simp add: add.assoc)
  qed
qed

lemma utt_loop_Inr:
  "utt_loop f is js l = Inr r \<longleftrightarrow>
     (\<forall>i \<in> set is. \<forall>j \<in> set js. \<exists>c. f i j = Inr c) \<and>
     r = l + sum_list (map (\<lambda>i. sum_list (map (\<lambda>j. projr (f i j)) js)) is)"
proof (induction "is" arbitrary: l)
  case Nil
  show ?case by auto
next
  case (Cons i "is")
  show ?case
  proof (cases "accumulate (f i) js l")
    case (Inl e)
    then have "\<not> (\<forall>j \<in> set js. \<exists>c. f i j = Inr c)"
      using accumulate_Inr[of "f i" js l] by auto
    with Inl show ?thesis by auto
  next
    case (Inr l')
    then have a: "\<forall>j \<in> set js. \<exists>c. f i j = Inr c"
      and b: "l' = l + sum_list (map (\<lambda>j. projr (f i j)) js)"
      using accumulate_Inr[of "f i" js l l'] by auto
    show ?thesis using Inr a Cons.IH[of l'] by (simp add: b add.assoc)
  qed
qed

lemma sum_list_upt: "sum_list (map g [0..<n]) = (\<Sum>k<n. g k)"
  by (simp add: interv_sum_list_conv_sum_set_nat atLeast0LessThan)

lemma max_polling_loss_Inr:
  assumes "max_polling_loss logits target lengths md = Inr (loss, acc)"
  obtains msk loss_sum masked max_logits num_correct where
    "padding_mask lengths = Inr msk"
    "utt_loop (loss_term logits target msk md) [0..<size0 logits] [0..<size2 logits] 0 = Inr loss_sum"
    "size0 logits \<noteq> 0"
    "masked_fill3 logits msk 0 = Inr masked"
    "max_dim1 masked = Inr max_logits"
    "accumulate (utt_correct max_logits target) [0..<size0 logits] 0 = Inr num_correct"
    "loss = loss_sum / real (size0 logits)"
    "acc = real num_correct / real (size0 logits)"
  using assms
  by (auto simp: max_polling_loss_def Let_def split: sum.splits if_splits)

lemma batch_example_wf: "well_formed batch_example [0] [2]"
  by (simp add: well_formed_def batch_example_def)

lemma batch_example_mask: "padding_mask [2] = Inr [ [False, False] ]"
  by (simp add: padding_mask_def upt_rec)

lemmas loss_eval =
  loss_term_def column_def masked_fill_def set_prefix_true_def slice_end_def tmax_def tmin_def
  clamp_def floor_prob_def upt_rec

lemma batch_example_result:
  "max_polling_loss batch_example [0] [2] 0 = Inr (- ln (9 / 10) - ln (7 / 10), 1)"
  by (simp add: max_polling_loss_def batch_example_mask)
     (simp add: loss_eval batch_example_def masked_fill3_def max_dim1_def max_dim0_def utt_correct_def)

lemma wf_masked_fill3:
  assumes wf: "well_formed logits target lengths"
  shows "masked_fill3 logits (map (\<lambda>l. map (\<lambda>t. l \<le> int t) [0..<size1 logits]) lengths) 0 =
     Inr \<lparr>size0 = size0 logits, size1 = size1 logits, size2 = size2 logits,
          at3 = \<lambda>i t j.
            if map (\<lambda>l. map (\<lambda>t. l \<le> int t) [0..<size1 logits]) lengths ! i ! t
            then 0 else at3 logits i t j\<rparr>"
proof -
  have ne: "lengths \<noteq> []" and len: "length lengths = size0 logits"
    using wf by (auto simp: well_formed_def)
  then show ?thesis by (simp add: masked_fill3_def Let_def hd_map cong: if_cong)
qed

lemma wf_max_logits:
  assumes wf: "well_formed logits target lengths"
    and pm: "padding_mask lengths = Inr msk"
    and mf: "masked_fill3 logits msk 0 = Inr masked"
    and i: "i < size0 logits"
  shows "max_dim1 masked = Inr ml \<Longrightarrow>
     ml ! i = map (\<lambda>j. Max ((\<lambda>t. if lengths ! i \<le> int t then 0 else at3 logits i t j) `
                              {0..<size1 logits})) [0..<size2 logits]"
proof -
  assume md: "max_dim1 masked = Inr ml"
  have len: "i < length lengths" using wf i by (simp add: well_formed_def)
  have msk: "msk = map (\<lambda>l. map (\<lambda>t. l \<le> int t) [0..<size1 logits]) lengths"
    using pm wf_padding_mask[OF wf] by simp
  have masked: "masked = \<lparr>size0 = size0 logits, size1 = size1 logits, size2 = size2 logits,
            at3 = \<lambda>i t j. if msk ! i ! t then 0 else at3 logits i t j\<rparr>"
    using mf wf_masked_fill3[OF wf] by (simp add: msk)
  have col: "column masked i j =
      map (\<lambda>t. if lengths ! i \<le> int t then 0 else at3 logits i t j) [0..<size1 logits]" for j
    using len by (simp add: column_def masked msk cong: map_cong)
  have sz: "size0 masked = size0 logits" "size2 masked = size2 logits"
    by (simp_all add: masked)
  have "ml = map (\<lambda>i. map (\<lambda>j. Max (set (column masked i j))) [0..<size2 masked]) [0..<size0 masked]"
    using md by (simp add: max_dim1_def split: if_splits)
  then have "ml ! i = map (\<lambda>j. Max (set (column masked i j))) [0..<size2 logits]"
    using i by (simp add: sz)
  then show ?thesis by (simp only: col set_map set_upt)
qed

lemma utt_correct_total:
  assumes "ml ! i \<noteq> []" "i < length target"
  shows "\<exists>c. utt_correct ml target i = Inr c"
  using assms by (simp add: utt_correct_def max_dim0_def)

lemma utt_correct_half:
  assumes "ml ! i \<noteq> []" "Max (set (ml ! i)) = 1 / 2"
  shows "utt_correct ml target i = Inr 0"
  using assms by (simp add: utt_correct_def max_dim0_def)

lemma wf_loss_term_Inr:
  assumes wf: "well_formed logits target lengths" and i: "i < size0 logits"
  shows "\<exists>c. loss_term logits target
            (map (\<lambda>l. map (\<lambda>t. l \<le> int t) [0..<size1 logits]) lengths) md i j = Inr c"
proof -
  have len: "i < length target" "i < length lengths" using wf i by (auto simp: well_formed_def)
  show ?thesis
  proof (cases "target ! i = int j")
    case True
    then show ?thesis using loss_term_positive[OF len True wf_size1_pos[OF wf] ] by simp
  next
    case False
    then show ?thesis using loss_term_negative[OF len False wf_size1_pos[OF wf] ] by simp
  qed
qed

lemma wf_returns:
  assumes wf: "well_formed logits target lengths"
  shows "\<exists>loss acc. max_polling_loss logits target lengths md = Inr (loss, acc)"
proof -
  let ?msk = "map (\<lambda>l. map (\<lambda>t. l \<le> int t) [0..<size1 logits]) lengths"
  have pm: "padding_mask lengths = Inr ?msk" by (rule wf_padding_mask[OF wf])
  have B: "size0 logits \<noteq> 0" and D: "0 < size2 logits" and lt: "length target = size0 logits"
    using wf by (auto simp: well_formed_def)
  obtain loss_sum where ul: "utt_loop (loss_term logits target ?msk md)
      [0..<size0 logits] [0..<size2 logits] 0 = Inr loss_sum"
    using wf_loss_term_Inr[OF wf] by (simp add: utt_loop_Inr)
  obtain masked where mf: "masked_fill3 logits ?msk 0 = Inr masked"
    using wf_masked_fill3[OF wf] by simp
  have "size1 masked = size1 logits" using mf wf_masked_fill3[OF wf] by auto
  then obtain ml where md1: "max_dim1 masked = Inr ml"
    using wf_size1_pos[OF wf] by (simp add: max_dim1_def)
  have "\<exists>c. utt_correct ml target i = Inr c" if "i < size0 logits" for i
  proof (rule utt_correct_total)
    show "ml ! i \<noteq> []" using wf_max_logits[OF wf pm mf that md1] D by simp
    show "i < length target" using that lt by simp
  qed
  then obtain nc :: nat where ac: "accumulate (utt_correct ml target) [0..<size0 logits] 0 = Inr nc"
    by (simp add: accumulate_Inr)
  show ?thesis
    by (simp add: max_polling_loss_def Let_def pm ul B mf md1 ac)
qed

lemma masked_max_half:
  fixes p :: "nat \<Rightarrow> nat \<Rightarrow> real"
  assumes V: "V = {t. t < T \<and> \<not> pad t}"
    and half: "Max ((\<lambda>(t, j). p t j) ` (V \<times> {0..<D})) = 1 / 2"
    and ne: "V \<noteq> {}" "0 < D"
  shows "Max ((\<lambda>j. Max ((\<lambda>t. if pad t then 0 else p t j) ` {0..<T})) ` {0..<D}) = 1 / 2"
proof -
  let ?S = "(\<lambda>(t, j). p t j) ` (V \<times> {0..<D})"
  let ?m = "\<lambda>j. Max ((\<lambda>t. if pad t then 0 else p t j) ` {0..<T})"
  have finV: "finite V" using V by simp
  have finS: "finite ?S" using finV by simp
  have Sne: "?S \<noteq> {}" using ne by auto
  have T: "0 < T" using ne V by auto
  have le: "p t j \<le> 1 / 2" if "t \<in> V" "j < D" for t j
  proof -
    have "p t j \<in> ?S" using that by force
    then have "p t j \<le> Max ?S" using finS by simp
    then show ?thesis using half by simp
  qed
  have "Max ?S \<in> ?S" using finS Sne by (rule Max_in)
  then obtain t0 j0 where t0: "t0 \<in> V" and j0: "j0 < D" and at: "p t0 j0 = 1 / 2"
    using half by auto
  have bound: "?m j \<le> 1 / 2" if "j < D" for j
  proof -
    have "\<forall>y \<in> (\<lambda>t. if pad t then 0 else p t j) ` {0..<T}. y \<le> 1 / 2"
      using le[OF _ that] V by auto
    moreover have "(\<lambda>t. if pad t then 0 else p t j) ` {0..<T} \<noteq> {}"
      using T by (simp del: if_image_distrib)
    ultimately show ?thesis by (intro Max.boundedI) (auto simp del: if_image_distrib)
  qed
  have "?m j0 = 1 / 2"
  proof (rule antisym)
    show "?m j0 \<le> 1 / 2" by (rule bound[OF j0])
    have "(if pad t0 then 0 else p t0 j0) \<in> (\<lambda>t. if pad t then 0 else p t j0) ` {0..<T}"
      using t0 V by (intro image_eqI[where x = t0]) auto
    then have "(if pad t0 then 0 else p t0 j0) \<le> ?m j0" by (intro Max_ge) auto
    moreover have "(if pad t0 then 0 else p t0 j0) = 1 / 2" using t0 V at by simp
    ultimately show "1 / 2 \<le> ?m j0" by (simp only:)
  qed
  show ?thesis
  proof (rule Max_eqI)
    show "finite (?m ` {0..<D})" by simp
    show "y \<le> 1 / 2" if "y \<in> ?m ` {0..<D}" for y using that bound by auto
    show "1 / 2 \<in> ?m ` {0..<D}" using \<open>?m j0 = 1 / 2\<close> j0
      by (intro image_eqI[where x = j0]) auto
  qed
qed

subsection \<open>The positive branch\<close>

text \<open>
  Claim C1. In a well-formed batch, for an utterance \<open>i\<close> whose target is keyword \<open>j\<close> and
  at least one frame \<open>t\<close> with \<open>t < lengths[i]\<close> and \<open>min_duration \<le> t\<close>, the pair \<open>(i, j)\<close>
  adds \<open>- ln (clamp m 1e-8 1)\<close> to the loss, where \<open>m\<close> is the maximum of
  \<open>logits[i, t, j]\<close> over those frames; when there is exactly one such frame, \<open>m\<close> is its
  posterior. \<open>min_duration\<close> is a number of frames (the minimum duration of the keyword,
  0 when it is not given), hence not negative. The bound on the posteriors is not needed.
\<close>

theorem positive_term_max_pooling:
  assumes wf: "well_formed logits target lengths"
    and i: "i < size0 logits" and tgt: "target ! i = int j"
    and md: "0 \<le> min_duration"
    and ne: "eligible_frames logits lengths min_duration i \<noteq> []"
  shows "contribution logits target lengths min_duration i j =
           Inr (- ln (clamp (max_over logits i j (eligible_frames logits lengths min_duration i))
                        floor_prob 1))
         \<and> (\<forall>t. eligible_frames logits lengths min_duration i = [t] \<longrightarrow>
               contribution logits target lengths min_duration i j =
                 Inr (- ln (clamp (at3 logits i t j) floor_prob 1)))"
proof -
  let ?T = "size1 logits"
  let ?excl = "\<lambda>t. t < slice_end ?T min_duration \<or> lengths ! i \<le> int t"
  let ?ts = "eligible_frames logits lengths min_duration i"
  have len: "i < length target" "i < length lengths" using wf i by (auto simp: well_formed_def)
  have set_ts: "set ?ts = {t. t < ?T \<and> \<not> ?excl t}"
    using md by (auto simp: eligible_frames_def slice_end_nonneg)
  have "contribution logits target lengths min_duration i j =
          Inr (- ln (Max ((\<lambda>t. clamp (if ?excl t then 0 else at3 logits i t j) floor_prob 1) ` {0..<?T})))"
    using loss_term_positive[OF len tgt wf_size1_pos[OF wf] ] by (simp add: contribution_wf[OF wf])
  also have "\<dots> = Inr (- ln (clamp (max_over logits i j ?ts) floor_prob 1))"
    using Max_clamp_eligible[OF ne set_ts, of "\<lambda>t. at3 logits i t j"] by (simp add: max_over_def)
  finally have main: "contribution logits target lengths min_duration i j =
       Inr (- ln (clamp (max_over logits i j ?ts) floor_prob 1))" .
  then show ?thesis by (auto simp: max_over_def)
qed

text \<open>
  The theorem at the example batch with \<open>min_duration = 1\<close>: frame 1 is the only eligible
  frame of utterance 0, and keyword 0 has posterior 1/10 there.
\<close>

theorem positive_term_max_pooling_witness:
  "well_formed batch_example [0] [2] \<and> eligible_frames batch_example [2] 1 0 = [1] \<and>
   contribution batch_example [0] [2] 1 0 0 = Inr (- ln (1 / 10))"
proof -
  have e: "eligible_frames batch_example [2] 1 0 = [1]"
    by (simp add: eligible_frames_def batch_example_def upt_rec)
  have "contribution batch_example [0] [2] 1 0 0 =
          Inr (- ln (clamp (max_over batch_example 0 0 [1]) floor_prob 1))"
    using positive_term_max_pooling[of batch_example "[0]" "[2]" 0 0 1]
    by (simp add: batch_example_wf e) (simp add: batch_example_def)
  then show ?thesis
    by (simp add: batch_example_wf e) (simp add: max_over_def batch_example_def clamp_def floor_prob_def)
qed

subsection \<open>The negative branch\<close>

text \<open>
  Claim C2. In a well-formed batch, for an utterance \<open>i\<close> whose target is not keyword \<open>j\<close>
  (another keyword, or a negative filler target) and whose length is at least one, the
  pair \<open>(i, j)\<close> adds \<open>- ln (clamp (1 - m) 1e-8 1)\<close> to the loss, where \<open>m\<close> is the maximum
  of \<open>logits[i, t, j]\<close> over the frames \<open>t < lengths[i]\<close>: the minimum of the absence
  probabilities is one minus the maximum of the posteriors.
\<close>

theorem negative_term_min_pooling:
  assumes wf: "well_formed logits target lengths"
    and i: "i < size0 logits" and tgt: "target ! i \<noteq> int j"
    and len1: "1 \<le> lengths ! i"
  shows "contribution logits target lengths min_duration i j =
           Inr (- ln (clamp (1 - max_over logits i j (valid_frames logits lengths i))
                        floor_prob 1))"
proof -
  let ?T = "size1 logits"
  let ?excl = "\<lambda>t. lengths ! i \<le> int t"
  let ?ts = "valid_frames logits lengths i"
  have len: "i < length target" "i < length lengths" using wf i by (auto simp: well_formed_def)
  have set_ts: "set ?ts = {t. t < ?T \<and> \<not> ?excl t}"
    by (auto simp: valid_frames_def)
  have "0 \<in> set ?ts" using len1 wf_size1_pos[OF wf] by (simp add: valid_frames_def)
  then have ne: "?ts \<noteq> []" by auto
  have "contribution logits target lengths min_duration i j =
          Inr (- ln (Min ((\<lambda>t. clamp (if ?excl t then 1 else 1 - at3 logits i t j) floor_prob 1) ` {0..<?T})))"
    using loss_term_negative[OF len tgt wf_size1_pos[OF wf] ] by (simp add: contribution_wf[OF wf])
  also have "\<dots> = Inr (- ln (clamp (1 - max_over logits i j ?ts) floor_prob 1))"
    using Min_clamp_valid[OF ne set_ts, of "\<lambda>t. at3 logits i t j"] by (simp add: max_over_def)
  finally show ?thesis .
qed

text \<open>
  The theorem at the example batch: the target of utterance 0 is keyword 0, and keyword 1
  has the posteriors 1/5 and 3/10.
\<close>

theorem negative_term_min_pooling_witness:
  "well_formed batch_example [0] [2] \<and> [0] ! 0 \<noteq> int 1 \<and> (1::int) \<le> [2] ! 0 \<and>
   contribution batch_example [0] [2] 0 0 1 = Inr (- ln (7 / 10))"
proof -
  have v: "valid_frames batch_example [2] 0 = [0, 1]"
    by (simp add: valid_frames_def batch_example_def upt_rec)
  have "contribution batch_example [0] [2] 0 0 1 =
          Inr (- ln (clamp (1 - max_over batch_example 0 1 [0, 1]) floor_prob 1))"
    using negative_term_min_pooling[of batch_example "[0]" "[2]" 0 1 0]
    by (simp add: batch_example_wf v) (simp add: batch_example_def)
  then show ?thesis
    by (simp add: batch_example_wf) (simp add: max_over_def batch_example_def clamp_def floor_prob_def)
qed

subsection \<open>The reduction over the batch\<close>

text \<open>
  Claim C4. Whenever \<open>max_polling_loss\<close> returns, every pair \<open>(i, j)\<close> of the \<open>B\<close>
  utterances and \<open>D\<close> keywords has a contribution, and the returned loss is the sum of
  all \<open>B * D\<close> contributions divided by \<open>B\<close> alone: a mean over the utterances of the sum
  over the keywords.
\<close>

theorem loss_is_batch_mean_of_keyword_sums:
  assumes ret: "max_polling_loss logits target lengths min_duration = Inr (loss, acc)"
  shows "\<exists>c. (\<forall>i < size0 logits. \<forall>j < size2 logits.
                 contribution logits target lengths min_duration i j = Inr (c i j)) \<and>
             loss = (\<Sum>i < size0 logits. \<Sum>j < size2 logits. c i j) / real (size0 logits)"
proof -
  from ret obtain msk loss_sum where
    pm: "padding_mask lengths = Inr msk" and
    ul: "utt_loop (loss_term logits target msk min_duration)
           [0..<size0 logits] [0..<size2 logits] 0 = Inr loss_sum" and
    l: "loss = loss_sum / real (size0 logits)"
    by (rule max_polling_loss_Inr)
  let ?c = "\<lambda>i j. projr (contribution logits target lengths min_duration i j)"
  have ct: "contribution logits target lengths min_duration i j =
              loss_term logits target msk min_duration i j" for i j
    by (simp add: contribution_def pm)
  from ul have all: "\<forall>i < size0 logits. \<forall>j < size2 logits.
       \<exists>c. loss_term logits target msk min_duration i j = Inr c"
    and s: "loss_sum = (\<Sum>i < size0 logits. \<Sum>j < size2 logits.
               projr (loss_term logits target msk min_duration i j))"
    by (auto simp: utt_loop_Inr sum_list_upt)
  have "\<forall>i < size0 logits. \<forall>j < size2 logits.
          contribution logits target lengths min_duration i j = Inr (?c i j)"
  proof (intro allI impI)
    fix i j assume "i < size0 logits" "j < size2 logits"
    with all obtain c where "loss_term logits target msk min_duration i j = Inr c" by blast
    then show "contribution logits target lengths min_duration i j = Inr (?c i j)"
      by (simp add: ct)
  qed
  moreover have "loss = (\<Sum>i < size0 logits. \<Sum>j < size2 logits. ?c i j) / real (size0 logits)"
    unfolding l s ct ..
  ultimately show ?thesis by (intro exI[of _ ?c] conjI)
qed

text \<open>
  The theorem at the example batch, which has one utterance and two keywords: the loss is
  the sum of the two contributions, not their mean.
\<close>

theorem loss_is_batch_mean_of_keyword_sums_witness:
  "max_polling_loss batch_example [0] [2] 0 = Inr (- ln (9 / 10) - ln (7 / 10), 1) \<and>
   contribution batch_example [0] [2] 0 0 0 = Inr (- ln (9 / 10)) \<and>
   contribution batch_example [0] [2] 0 0 1 = Inr (- ln (7 / 10)) \<and>
   - ln (9 / 10) - ln (7 / 10) = (- ln (9 / 10) + - ln (7 / 10)) / real (size0 batch_example)"
proof -
  obtain c where
    c: "\<forall>i < size0 batch_example. \<forall>j < size2 batch_example.
          contribution batch_example [0] [2] 0 i j = Inr (c i j)" and
    l: "- ln (9 / 10) - ln (7 / 10) =
          (\<Sum>i < size0 batch_example. \<Sum>j < size2 batch_example. c i j) /
          real (size0 batch_example)"
    using loss_is_batch_mean_of_keyword_sums[OF batch_example_result] by blast
  have c0: "contribution batch_example [0] [2] 0 0 0 = Inr (- ln (9 / 10))"
    by (simp add: contribution_def batch_example_mask) (simp add: loss_eval batch_example_def)
  have c1: "contribution batch_example [0] [2] 0 0 1 = Inr (- ln (7 / 10))"
    by (simp add: contribution_def batch_example_mask) (simp add: loss_eval batch_example_def)
  have sz: "size0 batch_example = 1" "size2 batch_example = 2"
    by (simp_all add: batch_example_def)
  have "c 0 0 = - ln (9 / 10)" "c 0 1 = - ln (7 / 10)"
    using c c0 c1 by (simp_all add: sz)
  then have "(\<Sum>i < size0 batch_example. \<Sum>j < size2 batch_example. c i j) =
               - ln (9 / 10) + - ln (7 / 10)"
    by (simp add: sz lessThan_Suc numeral_2_eq_2)
  with l have "- ln (9 / 10) - ln (7 / 10) =
      (- ln (9 / 10) + - ln (7 / 10)) / real (size0 batch_example)"
    by simp
  with batch_example_result c0 c1 show ?thesis by (intro conjI)
qed

subsection \<open>No eligible frame\<close>

text \<open>
  Claim C5. In a well-formed batch, for an utterance \<open>i\<close> whose target is keyword \<open>j\<close> and a
  \<open>min_duration\<close> of at least \<open>lengths[i]\<close>, every frame of the column is excluded, as
  padding or by the onset delay; \<open>max_polling_loss\<close> still returns, and the pair \<open>(i, j)\<close>
  adds the fixed value \<open>- ln 1e-8\<close>, the maximum being the floor of the clamp.
\<close>

theorem all_frames_excluded_fallback:
  assumes wf: "well_formed logits target lengths"
    and i: "i < size0 logits" and j: "j < size2 logits" and tgt: "target ! i = int j"
    and md: "lengths ! i \<le> min_duration"
  shows "(\<exists>loss acc. max_polling_loss logits target lengths min_duration = Inr (loss, acc)) \<and>
         contribution logits target lengths min_duration i j = Inr (- ln floor_prob)"
proof
  show "\<exists>loss acc. max_polling_loss logits target lengths min_duration = Inr (loss, acc)"
    by (rule wf_returns[OF wf])
next
  let ?T = "size1 logits"
  let ?excl = "\<lambda>t. t < slice_end ?T min_duration \<or> lengths ! i \<le> int t"
  have len: "i < length target" "i < length lengths" using wf i by (auto simp: well_formed_def)
  have T: "0 < ?T" by (rule wf_size1_pos[OF wf])
  have "0 < lengths ! i" using wf len by (auto simp: well_formed_def)
  then have nonneg: "0 \<le> min_duration" using md by simp
  have all: "?excl t" if "t < ?T" for t
    using md slice_end_nonneg[OF nonneg that] by linarith
  have "(\<lambda>t. clamp (if ?excl t then 0 else at3 logits i t j) floor_prob 1) ` {0..<?T} =
          {floor_prob}"
    using T all by (auto simp: clamp_zero simp del: if_image_distrib)
  then have "Max ((\<lambda>t. clamp (if ?excl t then 0 else at3 logits i t j) floor_prob 1) ` {0..<?T}) =
          floor_prob"
    by (simp only: Max_singleton)
  then show "contribution logits target lengths min_duration i j = Inr (- ln floor_prob)"
    using loss_term_positive[OF len tgt T, of min_duration] by (simp only: contribution_wf[OF wf])
qed

text \<open>
  The theorem at the example batch with \<open>min_duration = 2\<close>, the length of its utterance.
\<close>

theorem all_frames_excluded_fallback_witness:
  "well_formed batch_example [0] [2] \<and> [2] ! 0 \<le> (2::int) \<and>
   max_polling_loss batch_example [0] [2] 2 = Inr (- ln floor_prob - ln (7 / 10), 1) \<and>
   contribution batch_example [0] [2] 2 0 0 = Inr (- ln floor_prob)"
proof -
  have r: "max_polling_loss batch_example [0] [2] 2 = Inr (- ln floor_prob - ln (7 / 10), 1)"
    by (simp add: max_polling_loss_def batch_example_mask)
       (simp add: loss_eval batch_example_def masked_fill3_def max_dim1_def max_dim0_def
          utt_correct_def numeral_2_eq_2)
  have "contribution batch_example [0] [2] 2 0 0 = Inr (- ln floor_prob)"
    using all_frames_excluded_fallback[of batch_example "[0]" "[2]" 0 0 2]
    by (simp add: batch_example_wf) (simp add: batch_example_def)
  with r show ?thesis by (simp add: batch_example_wf)
qed

subsection \<open>Errors of the evaluator\<close>

text \<open>
  Claim C6, as amended. For well-formed inputs \<open>max_polling_loss\<close> raises nothing and
  returns a complete pair of loss and accuracy. The source has no check of the shapes
  and no error kind of its own for them: an inconsistency is met only by whatever the
  indexing and tensor operations raise, and some inconsistencies raise nothing.
\<close>

theorem well_formed_inputs_return:
  assumes "well_formed logits target lengths"
  shows "\<exists>loss acc. max_polling_loss logits target lengths min_duration = Inr (loss, acc)"
  using assms by (rule wf_returns)

text \<open>The theorem at the example batch.\<close>

theorem well_formed_inputs_return_witness:
  "well_formed batch_example [0] [2] \<and>
   max_polling_loss batch_example [0] [2] 0 = Inr (- ln (9 / 10) - ln (7 / 10), 1)"
proof -
  obtain loss acc where "max_polling_loss batch_example [0] [2] 0 = Inr (loss, acc)"
    using well_formed_inputs_return[OF batch_example_wf] by blast
  then show ?thesis by (simp add: batch_example_wf batch_example_result)
qed

text \<open>
  Claim C6 as it is stated has every inconsistency of the dimensions raise. A target
  vector with two entries for the one utterance of the example batch is inconsistent
  with it, and the call returns the same pair as with the target vector \<open>[0]\<close>: the
  second entry is never read.
\<close>

theorem shape_mismatch_counterexample:
  "length [0, 1 :: int] \<noteq> size0 batch_example \<and>
   max_polling_loss batch_example [0, 1] [2] 0 = Inr (- ln (9 / 10) - ln (7 / 10), 1)"
  by (simp add: max_polling_loss_def batch_example_mask)
     (simp add: loss_eval batch_example_def masked_fill3_def max_dim1_def max_dim0_def
        utt_correct_def)

subsection \<open>The accuracy at one half\<close>

text \<open>
  Claim C7. In a well-formed batch on which \<open>max_polling_loss\<close> returns, every utterance
  has a count of zero or more that it adds to \<open>num_correct\<close>, the accuracy is the sum of
  these counts divided by the batch size, and an utterance whose maximum posterior over
  its valid frames and all keywords is exactly one half adds zero, whatever its target:
  neither \<open>max_p > 0.5\<close> nor \<open>max_p < 0.5\<close> holds.
\<close>

theorem half_is_incorrect:
  assumes wf: "well_formed logits target lengths"
    and ret: "max_polling_loss logits target lengths min_duration = Inr (loss, acc)"
  shows "\<exists>c. (\<forall>i < size0 logits. correct_increment logits target lengths i = Inr (c i)) \<and>
             acc = real (\<Sum>i < size0 logits. c i) / real (size0 logits) \<and>
             (\<forall>i < size0 logits. valid_max logits lengths i = 1 / 2 \<longrightarrow> c i = 0)"
proof -
  from ret obtain msk masked ml num_correct where
    pm: "padding_mask lengths = Inr msk" and
    mf: "masked_fill3 logits msk 0 = Inr masked" and
    md1: "max_dim1 masked = Inr ml" and
    ac: "accumulate (utt_correct ml target) [0..<size0 logits] 0 = Inr num_correct" and
    a: "acc = real num_correct / real (size0 logits)"
    by (rule max_polling_loss_Inr)
  let ?c = "\<lambda>i. projr (correct_increment logits target lengths i)"
  have ci: "correct_increment logits target lengths i = utt_correct ml target i" for i
    by (simp add: correct_increment_def pm mf md1)
  from ac have all: "\<forall>i < size0 logits. \<exists>c. utt_correct ml target i = Inr c"
    and n: "num_correct = (\<Sum>i < size0 logits. projr (utt_correct ml target i))"
    by (auto simp: accumulate_Inr sum_list_upt)
  have D: "0 < size2 logits" using wf by (simp add: well_formed_def)
  have 1: "\<forall>i < size0 logits. correct_increment logits target lengths i = Inr (?c i)"
  proof (intro allI impI)
    fix i assume "i < size0 logits"
    with all obtain c where "utt_correct ml target i = Inr c" by blast
    then show "correct_increment logits target lengths i = Inr (?c i)" by (simp add: ci)
  qed
  have 2: "acc = real (\<Sum>i < size0 logits. ?c i) / real (size0 logits)"
    unfolding a n ci ..
  have 3: "\<forall>i < size0 logits. valid_max logits lengths i = 1 / 2 \<longrightarrow> ?c i = 0"
  proof (intro allI impI)
    fix i assume i: "i < size0 logits" and half: "valid_max logits lengths i = 1 / 2"
    have len: "i < length lengths" using wf i by (simp add: well_formed_def)
    then have pos: "0 < lengths ! i" using wf by (auto simp: well_formed_def)
    let ?V = "set (valid_frames logits lengths i)"
    have V: "?V = {t. t < size1 logits \<and> \<not> lengths ! i \<le> int t}"
      by (auto simp: valid_frames_def)
    have "0 \<in> ?V" using pos wf_size1_pos[OF wf] by (simp add: V)
    then have Vne: "?V \<noteq> {}" by auto
    have row: "ml ! i = map (\<lambda>j. Max ((\<lambda>t. if lengths ! i \<le> int t then 0 else at3 logits i t j) `
                              {0..<size1 logits})) [0..<size2 logits]"
      by (rule wf_max_logits[OF wf pm mf i md1])
    have "Max ((\<lambda>j. Max ((\<lambda>t. if lengths ! i \<le> int t then 0 else at3 logits i t j) `
                    {0..<size1 logits})) ` {0..<size2 logits}) = 1 / 2"
      using half by (intro masked_max_half[OF V _ Vne D]) (simp add: valid_max_def)
    then have "Max (set (ml ! i)) = 1 / 2" by (simp only: row set_map set_upt)
    moreover have "ml ! i \<noteq> []" using D by (simp add: row)
    ultimately have "utt_correct ml target i = Inr 0" by (intro utt_correct_half)
    then show "?c i = 0" by (simp add: ci)
  qed
  show ?thesis using 1 2 3 by (intro exI[of _ ?c] conjI)
qed

text \<open>
  The theorem at a batch of two utterances, one with target keyword 0 and one filler,
  whose only posterior is one half: neither is counted, and the accuracy is 0.
\<close>

theorem half_is_incorrect_witness:
  "well_formed half_example [0, - 1] [1, 1] \<and>
   max_polling_loss half_example [0, - 1] [1, 1] 0 = Inr ((- ln (1 / 2) - ln (1 / 2)) / 2, 0) \<and>
   valid_max half_example [1, 1] 0 = 1 / 2 \<and> valid_max half_example [1, 1] 1 = 1 / 2 \<and>
   correct_increment half_example [0, - 1] [1, 1] 0 = Inr 0 \<and>
   correct_increment half_example [0, - 1] [1, 1] 1 = Inr 0"
proof -
  have wf: "well_formed half_example [0, - 1] [1, 1]"
    by (simp add: well_formed_def half_example_def)
  have pm: "padding_mask [1, 1] = Inr [ [False], [False] ]"
    by (simp add: padding_mask_def upt_rec)
  have r: "max_polling_loss half_example [0, - 1] [1, 1] 0 = Inr ((- ln (1 / 2) - ln (1 / 2)) / 2, 0)"
    by (simp add: max_polling_loss_def pm)
       (simp add: loss_eval half_example_def masked_fill3_def max_dim1_def max_dim0_def
          utt_correct_def)
  have v: "valid_max half_example [1, 1] 0 = 1 / 2" "valid_max half_example [1, 1] 1 = 1 / 2"
    by (simp_all add: valid_max_def valid_frames_def half_example_def upt_rec)
  obtain c where
    c: "\<forall>i < size0 half_example. correct_increment half_example [0, - 1] [1, 1] i = Inr (c i)" and
    z: "\<forall>i < size0 half_example. valid_max half_example [1, 1] i = 1 / 2 \<longrightarrow> c i = 0"
    using half_is_incorrect[OF wf r] by blast
  have sz: "size0 half_example = 2" by (simp add: half_example_def)
  have "c 0 = 0" "c 1 = 0" using z v by (simp_all add: sz)
  moreover have "correct_increment half_example [0, - 1] [1, 1] 0 = Inr (c 0)"
    "correct_increment half_example [0, - 1] [1, 1] 1 = Inr (c 1)"
    using c by (simp_all add: sz)
  ultimately have "correct_increment half_example [0, - 1] [1, 1] 0 = Inr 0"
    "correct_increment half_example [0, - 1] [1, 1] 1 = Inr 0"
    by simp_all
  with wf r v show ?thesis by (intro conjI)
qed

section \<open>Properties of the model\<close>

subsection \<open>Auxiliary facts\<close>

lemmas config_eval =
  init_model_def init_cmvn_def init_preprocessing_def init_backbone_def init_gru_def
  init_tcn_def init_mdtc_def subscript_def get_def contains_def KWSModel_init_def

lemma mdtc_config_result:
  "init_model no_loader mdtc_config =
     Inr \<lparr>idim = PInt 80, odim = PInt 2, hdim = PInt 32, global_cmvn = None,
          preprocessing = None,
          backbone = MDTC (PInt 4) (PInt 4) (PInt 80) (PInt 32) (PInt 5) True,
          classifier = Linear (PInt 32) (PInt 2)\<rparr>"
  by (simp add: config_eval mdtc_config_def)

lemma gru_config_result:
  "init_model no_loader gru_config =
     Inr \<lparr>idim = PInt 80, odim = PInt 2, hdim = PInt 64, global_cmvn = None,
          preprocessing = Some (LinearSubsampling1 (PInt 80) (PInt 64)),
          backbone = GRU (PInt 64) (PInt 64) (PInt 2),
          classifier = Linear (PInt 64) (PInt 2)\<rparr>"
  by (simp add: config_eval gru_config_def)

lemma tcn_config_result:
  "init_model no_loader tcn_config =
     Inr \<lparr>idim = PInt 80, odim = PInt 2, hdim = PInt 64, global_cmvn = None,
          preprocessing = Some (LinearSubsampling1 (PInt 80) (PInt 64)),
          backbone = TCN (PInt 4) (PInt 64) (PInt 8) (PFloat (1 / 10)) CnnBlock,
          classifier = Linear (PInt 64) (PInt 2)\<rparr>"
  by (simp add: config_eval tcn_config_def)

lemma sigmoid_bounds: "0 < sigmoid x \<and> sigmoid x < 1"
proof -
  have "0 < exp (- x)" by simp
  then show ?thesis by (simp add: sigmoid_def add_pos_pos)
qed

subsection \<open>Unknown variant names\<close>

text \<open>
  Claim C3, as amended. When the normalization block and the three dimension lookups
  succeed and \<open>configs['preprocessing']['type']\<close> can be read: if it is none of \<open>none\<close>,
  \<open>linear\<close>, \<open>cnn1d_s1\<close>, then \<open>init_model\<close> prints \<open>Unknown preprocessing type\<close> followed by
  the value and leaves by \<open>sys.exit(1)\<close>; if it is one of them and
  \<open>configs['backbone']['type']\<close> can be read and is none of \<open>gru\<close>, \<open>tcn\<close>, \<open>mdtc\<close>, then
  \<open>init_model\<close> prints \<open>Unknown body type\<close> followed by the value and leaves by
  \<open>sys.exit(1)\<close>. There is no fallback: whenever \<open>init_model\<close> returns a model, both types
  are among the known ones.
\<close>

theorem unknown_type_exits:
  assumes g: "init_cmvn load_cmvn configs = Inr g"
    and dims: "subscript configs ''input_dim'' = Inr input_dim"
      "subscript configs ''output_dim'' = Inr output_dim"
      "subscript configs ''hidden_dim'' = Inr hidden_dim"
    and p: "subscript configs ''preprocessing'' = Inr prep"
      "subscript prep ''type'' = Inr prep_type"
  shows "(prep_type \<notin> {PStr ''none'', PStr ''linear'', PStr ''cnn1d_s1''} \<longrightarrow>
            init_model load_cmvn configs =
              Inl (SystemExit (Format ''Unknown preprocessing type {}'' prep_type) 1)) \<and>
         (\<forall>bb backbone_type.
            prep_type \<in> {PStr ''none'', PStr ''linear'', PStr ''cnn1d_s1''} \<longrightarrow>
            subscript configs ''backbone'' = Inr bb \<longrightarrow>
            subscript bb ''type'' = Inr backbone_type \<longrightarrow>
            backbone_type \<notin> {PStr ''gru'', PStr ''tcn'', PStr ''mdtc''} \<longrightarrow>
            init_model load_cmvn configs =
              Inl (SystemExit (Format ''Unknown body type {}'' backbone_type) 1)) \<and>
         (\<forall>m. init_model load_cmvn configs = Inr m \<longrightarrow>
            prep_type \<in> {PStr ''none'', PStr ''linear'', PStr ''cnn1d_s1''} \<and>
            (\<exists>bb backbone_type.
               subscript configs ''backbone'' = Inr bb \<and>
               subscript bb ''type'' = Inr backbone_type \<and>
               backbone_type \<in> {PStr ''gru'', PStr ''tcn'', PStr ''mdtc''}))"
proof (intro conjI allI impI)
  assume "prep_type \<notin> {PStr ''none'', PStr ''linear'', PStr ''cnn1d_s1''}"
  then show "init_model load_cmvn configs =
      Inl (SystemExit (Format ''Unknown preprocessing type {}'' prep_type) 1)"
    by (simp add: init_model_def g dims init_preprocessing_def p)
next
  fix bb backbone_type
  assume "prep_type \<in> {PStr ''none'', PStr ''linear'', PStr ''cnn1d_s1''}"
    and "subscript configs ''backbone'' = Inr bb" "subscript bb ''type'' = Inr backbone_type"
    and "backbone_type \<notin> {PStr ''gru'', PStr ''tcn'', PStr ''mdtc''}"
  then show "init_model load_cmvn configs =
      Inl (SystemExit (Format ''Unknown body type {}'' backbone_type) 1)"
    by (auto simp: init_model_def g dims init_preprocessing_def p init_backbone_def)
next
  fix m assume m: "init_model load_cmvn configs = Inr m"
  then show "prep_type \<in> {PStr ''none'', PStr ''linear'', PStr ''cnn1d_s1''}"
    by (auto simp: init_model_def g dims init_preprocessing_def p split: if_splits)
  from m obtain r where "init_backbone configs input_dim hidden_dim = Inr r"
    by (auto simp: init_model_def g dims split: sum.splits)
  then show "\<exists>bb backbone_type.
       subscript configs ''backbone'' = Inr bb \<and>
       subscript bb ''type'' = Inr backbone_type \<and>
       backbone_type \<in> {PStr ''gru'', PStr ''tcn'', PStr ''mdtc''}"
    by (auto simp: init_backbone_def split: sum.splits if_splits)
qed

text \<open>The theorem at the two configurations with an unknown type.\<close>

theorem unknown_type_exits_witness:
  "init_model no_loader unknown_prep_config =
     Inl (SystemExit (Format ''Unknown preprocessing type {}'' (PStr ''cnn2d'')) 1) \<and>
   init_model no_loader unknown_backbone_config =
     Inl (SystemExit (Format ''Unknown body type {}'' (PStr ''lstm'')) 1)"
proof
  show "init_model no_loader unknown_prep_config =
     Inl (SystemExit (Format ''Unknown preprocessing type {}'' (PStr ''cnn2d'')) 1)"
    using unknown_type_exits[of no_loader unknown_prep_config None "PInt 80" "PInt 2" "PInt 64"
        "PDict [(''type'', PStr ''cnn2d'')]" "PStr ''cnn2d''"]
    by (simp add: unknown_prep_config_def init_cmvn_def subscript_def get_def contains_def)
  show "init_model no_loader unknown_backbone_config =
     Inl (SystemExit (Format ''Unknown body type {}'' (PStr ''lstm'')) 1)"
    using unknown_type_exits[of no_loader unknown_backbone_config None "PInt 80" "PInt 2" "PInt 64"
        "PDict [(''type'', PStr ''none'')]" "PStr ''none''"]
    by (simp add: unknown_backbone_config_def init_cmvn_def subscript_def get_def contains_def)
qed

text \<open>
  Claim C3 as it is stated has the construction fail by raising an error of the kind
  \<open>ConfigurationError\<close> that names the value. For the backbone type \<open>lstm\<close> the source
  writes the name to standard output and raises \<open>SystemExit\<close> with status 1, which
  carries no name; the source defines and raises no error of that kind.
\<close>

theorem unknown_type_counterexample:
  "subscript unknown_backbone_config ''backbone'' =
     Inr (PDict [(''type'', PStr ''lstm''), (''num_layers'', PInt 2)]) \<and>
   init_model no_loader unknown_backbone_config =
     Inl (SystemExit (Format ''Unknown body type {}'' (PStr ''lstm'')) 1)"
  by (simp add: config_eval unknown_backbone_config_def)

subsection \<open>The forward pass\<close>

text \<open>
  Claim C8. \<open>forward\<close> returns \<open>y\<close> exactly when the stages succeed one after the other:
  the global normalization if present, on the input; the projection if present, on that
  result; the backbone, whose second component is dropped; the classifier; and \<open>y\<close> is
  the sigmoid of the classifier's output, entry by entry. Every entry of a returned \<open>y\<close>
  lies between 0 and 1.
\<close>

theorem forward_stages_in_sequence:
  "(forward call call_backbone self x = Inr y \<longleftrightarrow>
      (\<exists>x1 x2 x3 h x4.
         (case global_cmvn self of None \<Rightarrow> Inr x | Some g \<Rightarrow> call g x) = Inr x1 \<and>
         (case preprocessing self of None \<Rightarrow> Inr x1 | Some p \<Rightarrow> call p x1) = Inr x2 \<and>
         call_backbone (backbone self) x2 = Inr (x3, h) \<and>
         call (classifier self) x3 = Inr x4 \<and>
         y = sigmoid3 x4)) \<and>
   (forward call call_backbone self x = Inr y \<longrightarrow>
      (\<forall>i t j. 0 \<le> at3 y i t j \<and> at3 y i t j \<le> 1))"
proof
  show "forward call call_backbone self x = Inr y \<longleftrightarrow>
      (\<exists>x1 x2 x3 h x4.
         (case global_cmvn self of None \<Rightarrow> Inr x | Some g \<Rightarrow> call g x) = Inr x1 \<and>
         (case preprocessing self of None \<Rightarrow> Inr x1 | Some p \<Rightarrow> call p x1) = Inr x2 \<and>
         call_backbone (backbone self) x2 = Inr (x3, h) \<and>
         call (classifier self) x3 = Inr x4 \<and>
         y = sigmoid3 x4)"
    by (auto simp: forward_def split: sum.splits prod.splits)
  show "forward call call_backbone self x = Inr y \<longrightarrow>
      (\<forall>i t j. 0 \<le> at3 y i t j \<and> at3 y i t j \<le> 1)"
  proof
    assume "forward call call_backbone self x = Inr y"
    then obtain x4 where "y = sigmoid3 x4"
      by (auto simp: forward_def split: sum.splits prod.splits)
    then show "\<forall>i t j. 0 \<le> at3 y i t j \<and> at3 y i t j \<le> 1"
      using sigmoid_bounds by (simp add: sigmoid3_def less_imp_le)
  qed
qed

text \<open>The theorem for sub-modules that return their input, at the example batch.\<close>

theorem forward_stages_in_sequence_witness:
  "forward id_call id_backbone example_model batch_example = Inr (sigmoid3 batch_example) \<and>
   0 \<le> at3 (sigmoid3 batch_example) 0 1 0 \<and> at3 (sigmoid3 batch_example) 0 1 0 \<le> 1"
proof -
  have f: "forward id_call id_backbone example_model batch_example = Inr (sigmoid3 batch_example)"
    by (simp add: forward_def id_call_def id_backbone_def example_model_def KWSModel_init_def)
  with forward_stages_in_sequence[of id_call id_backbone example_model batch_example
      "sigmoid3 batch_example"]
  have "\<forall>i t j. 0 \<le> at3 (sigmoid3 batch_example) i t j \<and> at3 (sigmoid3 batch_example) i t j \<le> 1"
    by blast
  with f show ?thesis by blast
qed

subsection \<open>The hidden dimension of the multi-scale backbone\<close>

text \<open>
  Claim C9. When \<open>init_model\<close> returns a model and the backbone type is \<open>mdtc\<close>, the
  backbone is \<open>MDTC\<close> built with \<open>configs['input_dim']\<close> as its input size and
  \<open>configs['backbone']['hidden_dim']\<close> as its hidden size, and the model's \<open>hdim\<close> and the
  input size of its classifier are \<open>configs['backbone']['hidden_dim']\<close>. For the types
  \<open>gru\<close> and \<open>tcn\<close> they are \<open>configs['hidden_dim']\<close>.
\<close>

theorem mdtc_rebinds_hidden_dim:
  assumes ok: "init_model load_cmvn configs = Inr m"
    and bb: "subscript configs ''backbone'' = Inr bb"
    and ty: "subscript bb ''type'' = Inr backbone_type"
  shows "(backbone_type = PStr ''mdtc'' \<longrightarrow>
           (\<exists>input_dim output_dim num_stack stack_size kernel_size backbone_hidden_dim.
              subscript configs ''input_dim'' = Inr input_dim \<and>
              subscript configs ''output_dim'' = Inr output_dim \<and>
              subscript bb ''num_stack'' = Inr num_stack \<and>
              subscript bb ''stack_size'' = Inr stack_size \<and>
              subscript bb ''kernel_size'' = Inr kernel_size \<and>
              subscript bb ''hidden_dim'' = Inr backbone_hidden_dim \<and>
              backbone m =
                MDTC num_stack stack_size input_dim backbone_hidden_dim kernel_size True \<and>
              hdim m = backbone_hidden_dim \<and>
              classifier m = Linear backbone_hidden_dim output_dim)) \<and>
         (backbone_type = PStr ''gru'' \<or> backbone_type = PStr ''tcn'' \<longrightarrow>
           (\<exists>output_dim hidden_dim.
              subscript configs ''output_dim'' = Inr output_dim \<and>
              subscript configs ''hidden_dim'' = Inr hidden_dim \<and>
              hdim m = hidden_dim \<and>
              classifier m = Linear hidden_dim output_dim))"
proof -
  from ok obtain g input_dim output_dim hidden_dim prep b h' where
    dims: "subscript configs ''input_dim'' = Inr input_dim"
      "subscript configs ''output_dim'' = Inr output_dim"
      "subscript configs ''hidden_dim'' = Inr hidden_dim" and
    ib: "init_backbone configs input_dim hidden_dim = Inr (b, h')" and
    m: "m = KWSModel_init input_dim output_dim h' g prep b"
    by (auto simp: init_model_def split: sum.splits prod.splits)
  have fields: "backbone m = b" "hdim m = h'" "classifier m = Linear h' output_dim"
    by (simp_all add: m KWSModel_init_def)
  show ?thesis
  proof (intro conjI impI)
    assume "backbone_type = PStr ''mdtc''"
    then have "init_mdtc bb input_dim = Inr (b, h')"
      using ib by (simp add: init_backbone_def bb ty)
    then show "\<exists>input_dim output_dim num_stack stack_size kernel_size backbone_hidden_dim.
              subscript configs ''input_dim'' = Inr input_dim \<and>
              subscript configs ''output_dim'' = Inr output_dim \<and>
              subscript bb ''num_stack'' = Inr num_stack \<and>
              subscript bb ''stack_size'' = Inr stack_size \<and>
              subscript bb ''kernel_size'' = Inr kernel_size \<and>
              subscript bb ''hidden_dim'' = Inr backbone_hidden_dim \<and>
              backbone m =
                MDTC num_stack stack_size input_dim backbone_hidden_dim kernel_size True \<and>
              hdim m = backbone_hidden_dim \<and>
              classifier m = Linear backbone_hidden_dim output_dim"
      by (auto simp: init_mdtc_def dims fields split: sum.splits)
  next
    assume "backbone_type = PStr ''gru'' \<or> backbone_type = PStr ''tcn''"
    then have "init_gru bb hidden_dim = Inr (b, h') \<or> init_tcn bb hidden_dim = Inr (b, h')"
      using ib by (auto simp: init_backbone_def bb ty)
    then have "h' = hidden_dim"
      by (auto simp: init_gru_def init_tcn_def Let_def split: sum.splits)
    then show "\<exists>output_dim hidden_dim.
              subscript configs ''output_dim'' = Inr output_dim \<and>
              subscript configs ''hidden_dim'' = Inr hidden_dim \<and>
              hdim m = hidden_dim \<and>
              classifier m = Linear hidden_dim output_dim"
      by (simp add: dims fields)
  qed
qed

text \<open>
  The theorem at \<open>mdtc_config\<close>, where the top level gives 64 and the backbone section 32:
  the classifier takes 32 inputs. At \<open>gru_config\<close> it takes the 64 of the top level.
\<close>

theorem mdtc_rebinds_hidden_dim_witness:
  "subscript mdtc_config ''hidden_dim'' = Inr (PInt 64) \<and>
   (\<exists>m. init_model no_loader mdtc_config = Inr m \<and>
        backbone m = MDTC (PInt 4) (PInt 4) (PInt 80) (PInt 32) (PInt 5) True \<and>
        hdim m = PInt 32 \<and> classifier m = Linear (PInt 32) (PInt 2)) \<and>
   (\<exists>m. init_model no_loader gru_config = Inr m \<and>
        hdim m = PInt 64 \<and> classifier m = Linear (PInt 64) (PInt 2))"
proof -
  obtain m where m: "init_model no_loader mdtc_config = Inr m"
    using mdtc_config_result by blast
  have bb: "subscript mdtc_config ''backbone'' =
      Inr (PDict [(''type'', PStr ''mdtc''), (''num_stack'', PInt 4),
                  (''stack_size'', PInt 4), (''kernel_size'', PInt 5),
                  (''hidden_dim'', PInt 32)])"
    by (simp add: mdtc_config_def subscript_def)
  have 1: "backbone m = MDTC (PInt 4) (PInt 4) (PInt 80) (PInt 32) (PInt 5) True \<and>
        hdim m = PInt 32 \<and> classifier m = Linear (PInt 32) (PInt 2)"
    using mdtc_rebinds_hidden_dim[OF m bb, of "PStr ''mdtc''"]
    by (simp add: subscript_def) (simp add: mdtc_config_def)
  obtain m' where m': "init_model no_loader gru_config = Inr m'"
    using gru_config_result by blast
  have bb': "subscript gru_config ''backbone'' =
      Inr (PDict [(''type'', PStr ''gru''), (''num_layers'', PInt 2)])"
    by (simp add: gru_config_def subscript_def)
  have 2: "hdim m' = PInt 64 \<and> classifier m' = Linear (PInt 64) (PInt 2)"
    using mdtc_rebinds_hidden_dim[OF m' bb', of "PStr ''gru''"]
    by (simp add: subscript_def) (simp add: gru_config_def)
  have "subscript mdtc_config ''hidden_dim'' = Inr (PInt 64)"
    by (simp add: mdtc_config_def subscript_def)
  with m 1 m' 2 show ?thesis by blast
qed

subsection \<open>The dropout rate of the convolutional backbone\<close>

text \<open>
  Claim C10. When \<open>init_model\<close> returns a model and the backbone type is \<open>tcn\<close>, the
  dropout rate passed to \<open>TCN\<close> is the value under the key \<open>drouput\<close> of the backbone
  section, and 0.1 when that key is absent. No other key takes part, \<open>dropout\<close> included.
\<close>

theorem tcn_dropout_read_from_drouput:
  assumes ok: "init_model load_cmvn configs = Inr m"
    and bb: "subscript configs ''backbone'' = Inr (PDict bd)"
    and ty: "map_of bd ''type'' = Some (PStr ''tcn'')"
  shows "\<exists>num_layers hidden_dim kernel_size block.
           backbone m =
             TCN num_layers hidden_dim kernel_size
               (case map_of bd ''drouput'' of None \<Rightarrow> PFloat (1 / 10) | Some v \<Rightarrow> v) block"
proof -
  from ok obtain g input_dim output_dim hidden_dim prep b h' where
    ib: "init_backbone configs input_dim hidden_dim = Inr (b, h')" and
    m: "m = KWSModel_init input_dim output_dim h' g prep b"
    by (auto simp: init_model_def split: sum.splits prod.splits)
  have ty': "subscript (PDict bd) ''type'' = Inr (PStr ''tcn'')"
    by (simp add: subscript_def ty)
  have "init_tcn (PDict bd) hidden_dim = Inr (b, h')"
    using ib by (simp add: init_backbone_def bb ty')
  then have "\<exists>num_layers kernel_size block.
      b = TCN num_layers hidden_dim kernel_size
            (case map_of bd ''drouput'' of None \<Rightarrow> PFloat (1 / 10) | Some v \<Rightarrow> v) block"
    by (auto simp: init_tcn_def get_def Let_def split: sum.splits option.splits)
  then show ?thesis by (auto simp: m KWSModel_init_def)
qed

text \<open>
  The theorem at \<open>tcn_config\<close>, which gives the rate 1/2 under \<open>dropout\<close> and has no key
  \<open>drouput\<close>: the backbone is built with the rate 1/10.
\<close>

theorem tcn_dropout_read_from_drouput_witness:
  "subscript tcn_config ''backbone'' =
     Inr (PDict [(''type'', PStr ''tcn''), (''num_layers'', PInt 4),
                 (''dropout'', PFloat (1 / 2))]) \<and>
   (\<exists>m. init_model no_loader tcn_config = Inr m \<and>
        backbone m = TCN (PInt 4) (PInt 64) (PInt 8) (PFloat (1 / 10)) CnnBlock)"
proof -
  obtain m where m: "init_model no_loader tcn_config = Inr m"
    using tcn_config_result by blast
  have bb: "subscript tcn_config ''backbone'' =
     Inr (PDict [(''type'', PStr ''tcn''), (''num_layers'', PInt 4),
                 (''dropout'', PFloat (1 / 2))])"
    by (simp add: tcn_config_def subscript_def)
  obtain num_layers hidden_dim kernel_size block where
    "backbone m = TCN num_layers hidden_dim kernel_size (PFloat (1 / 10)) block"
    using tcn_dropout_read_from_drouput[OF m bb] by auto
  moreover have "\<exists>d. backbone m = TCN (PInt 4) (PInt 64) (PInt 8) d CnnBlock"
    using m by (auto simp: tcn_config_result)
  ultimately have "backbone m = TCN (PInt 4) (PInt 64) (PInt 8) (PFloat (1 / 10)) CnnBlock"
    by auto
  with m bb show ?thesis by blast
qed

end
